theory Spec2Isabelle
  imports Main "HOL-Library.Log_Nat"
begin

section \<open>Python numbers\<close>

text \<open>
  The pricing code computes with Python \<^verbatim>\<open>float\<close> values. A finite float is a rational
  number, so values are modelled as \<^typ>\<open>rat\<close>, and every arithmetic operation is the
  exact operation followed by the rounding of the number system in use:
  \<^item> \<open>Exact\<close>: no rounding at all (ideal decimal arithmetic, the arithmetic in which
    the specification is written);
  \<^item> \<open>Binary64\<close>: IEEE 754 double precision with round-to-nearest, ties-to-even, which is
    what CPython's \<^verbatim>\<open>float\<close> does. Subnormal numbers are covered; overflow to infinity and
    NaN are not: in the model a value beyond the largest double stays finite.
\<close>

datatype float_model = Exact | Binary64

definition round_half_even :: "rat \<Rightarrow> int" where
  "round_half_even x =
     (let f = \<lfloor>x\<rfloor>; d = x - of_int f
      in if d < 1 / 2 then f else if 1 / 2 < d then f + 1 else if even f then f else f + 1)"

definition pow2 :: "int \<Rightarrow> rat" where
  "pow2 e = (if 0 \<le> e then 2 ^ nat e else 1 / 2 ^ nat (- e))"

text \<open>\<open>ilog2 x\<close> is the binary exponent of \<open>x \<noteq> 0\<close>: \<open>2 ^ ilog2 x \<le> \<bar>x\<bar> < 2 ^ (ilog2 x + 1)\<close>.\<close>

definition ilog2 :: "rat \<Rightarrow> int" where
  "ilog2 x =
     (let (p, q) = quotient_of \<bar>x\<bar>; n = bitlen p - bitlen q
      in if pow2 n \<le> \<bar>x\<bar> then n else n - 1)"

text \<open>
  The double nearest to \<open>x\<close>: 53 significant bits, so the spacing of the doubles around
  \<open>x\<close> is \<open>2 ^ (ilog2 x - 52)\<close>, and never less than \<open>2 ^ - 1074\<close>.
\<close>

definition binary64 :: "rat \<Rightarrow> rat" where
  "binary64 x =
     (if x = 0 then 0
      else let e = max (ilog2 x) (- 1022); u = pow2 (e - 52)
           in of_int (round_half_even (x / u)) * u)"

fun rnd :: "float_model \<Rightarrow> rat \<Rightarrow> rat" where
  "rnd Exact x = x"
| "rnd Binary64 x = binary64 x"

text \<open>
  The exceptions that occur: \<^verbatim>\<open>ValueError\<close> and \<^verbatim>\<open>KeyError\<close> carry their message or
  key, \<open>ValidationError\<close> is pydantic's, \<open>APIError\<close> stands for any failure of the call
  to the completion service.
\<close>

datatype py_error =
  ZeroDivisionError | TypeError | ValueError string | KeyError string | ValidationError | APIError

text \<open>\<^verbatim>\<open>a / b\<close> raises \<^verbatim>\<open>ZeroDivisionError\<close> when \<^verbatim>\<open>b\<close> is zero.\<close>

definition py_truediv :: "float_model \<Rightarrow> rat \<Rightarrow> rat \<Rightarrow> py_error + rat" where
  "py_truediv m a b = (if b = 0 then Inl ZeroDivisionError else Inr (rnd m (a / b)))"

text \<open>
  \<^verbatim>\<open>round(x, ndigits)\<close>: CPython rounds the exact value of the float correctly to
  \<^verbatim>\<open>ndigits\<close> decimals, ties to even, and returns the float nearest to that decimal.
\<close>

definition py_round :: "float_model \<Rightarrow> rat \<Rightarrow> nat \<Rightarrow> rat" where
  "py_round m x ndigits = rnd m (of_int (round_half_even (x * 10 ^ ndigits)) / 10 ^ ndigits)"

definition and_then :: "'e + 'a \<Rightarrow> ('a \<Rightarrow> 'e + 'b) \<Rightarrow> 'e + 'b" where
  "and_then r f = (case r of Inl e \<Rightarrow> Inl e | Inr v \<Rightarrow> f v)"

section \<open>logic/pricing.py: PricingCalculator\<close>

text \<open>The attributes of a \<^verbatim>\<open>PricingCalculator\<close> instance.\<close>

record pricing_calculator =
  uniqueness_weight :: rat
  demand_weight :: rat
  economy_modifier :: rat
  premium_modifier :: rat
  suggested_price_multiplier :: rat

text \<open>\<^verbatim>\<open>__init__\<close>: the literals \<^verbatim>\<open>0.05\<close>, \<^verbatim>\<open>0.04\<close>, \<^verbatim>\<open>0.85\<close>, \<^verbatim>\<open>1.25\<close>, \<^verbatim>\<open>2.0\<close>.\<close>

definition init :: "float_model \<Rightarrow> pricing_calculator" where
  "init m =
     \<lparr>uniqueness_weight = rnd m (5 / 100),
      demand_weight = rnd m (4 / 100),
      economy_modifier = rnd m (85 / 100),
      premium_modifier = rnd m (125 / 100),
      suggested_price_multiplier = rnd m 2\<rparr>"

text \<open>The dictionary returned by \<^verbatim>\<open>calculate_price\<close>, one field per key.\<close>

record pricing_result =
  material_cost :: rat
  labor_cost :: rat
  base_price :: rat
  uniqueness_adjustment :: rat
  demand_adjustment :: rat
  factor_adjustment :: rat
  adjusted_price :: rat
  profit_amount :: rat
  profit_margin_percentage :: rat
  markup_percentage :: rat
  final_price :: rat
  economy_price :: rat
  premium_price :: rat
  selling_price :: rat

text \<open>
  Lines 49 to 54: the final price before rounding. \<^verbatim>\<open>selling_price\<close> is \<open>None\<close> when the
  argument is omitted.
\<close>

definition unrounded_final_price ::
  "float_model \<Rightarrow> pricing_calculator \<Rightarrow> rat \<Rightarrow> rat option \<Rightarrow> rat" where
  "unrounded_final_price m self adjusted selling =
     (case selling of
        None \<Rightarrow> rnd m (adjusted * suggested_price_multiplier self)
      | Some p \<Rightarrow> if 0 < p then p else rnd m (adjusted * suggested_price_multiplier self))"

definition calculate_price ::
  "float_model \<Rightarrow> pricing_calculator \<Rightarrow> rat \<Rightarrow> rat \<Rightarrow> rat \<Rightarrow> rat \<Rightarrow> rat \<Rightarrow> rat option
     \<Rightarrow> py_error + pricing_result" where
  "calculate_price m self =
     (\<lambda>material_cost hours_worked labor_rate uniqueness demand selling_price.
      let labor_cost = rnd m (hours_worked * labor_rate);
          base_price = rnd m (material_cost + labor_cost);
          uniqueness_adjustment =
            rnd m (rnd m (base_price * rnd m (uniqueness - 5)) * uniqueness_weight self);
          demand_adjustment =
            rnd m (rnd m (base_price * rnd m (demand - 5)) * demand_weight self);
          factor_adjustment = rnd m (uniqueness_adjustment + demand_adjustment);
          adjusted_price = rnd m (base_price + factor_adjustment);
          final_price = unrounded_final_price m self adjusted_price selling_price;
          profit_amount = rnd m (final_price - adjusted_price)
      in and_then
           (if 0 < final_price
            then and_then (py_truediv m profit_amount final_price) (\<lambda>q. Inr (rnd m (q * 100)))
            else Inr 0)
           (\<lambda>profit_margin_percentage.
         and_then
           (if 0 < adjusted_price
            then and_then (py_truediv m profit_amount adjusted_price) (\<lambda>q. Inr (rnd m (q * 100)))
            else Inr 0)
           (\<lambda>markup_percentage.
         let economy_price = rnd m (final_price * economy_modifier self);
             premium_price = rnd m (final_price * premium_modifier self)
         in Inr \<lparr>material_cost = material_cost,
                 labor_cost = labor_cost,
                 base_price = base_price,
                 uniqueness_adjustment = uniqueness_adjustment,
                 demand_adjustment = demand_adjustment,
                 factor_adjustment = factor_adjustment,
                 adjusted_price = adjusted_price,
                 profit_amount = py_round m profit_amount 2,
                 profit_margin_percentage = py_round m profit_margin_percentage 2,
                 markup_percentage = py_round m markup_percentage 2,
                 final_price = py_round m final_price 2,
                 economy_price = py_round m economy_price 2,
                 premium_price = py_round m premium_price 2,
                 selling_price = (case selling_price of None \<Rightarrow> 0 | Some p \<Rightarrow> p)\<rparr>)))"

text \<open>\<^verbatim>\<open>update_weights\<close>: an argument left at its default \<^verbatim>\<open>None\<close> is \<open>None\<close> here.\<close>

definition update_weights ::
  "pricing_calculator \<Rightarrow> rat option \<Rightarrow> rat option \<Rightarrow> rat option \<Rightarrow> rat option \<Rightarrow> rat option
     \<Rightarrow> pricing_calculator" where
  "update_weights self uw dw em pm spm =
     (let self = (case uw of None \<Rightarrow> self | Some v \<Rightarrow> self\<lparr>uniqueness_weight := v\<rparr>);
          self = (case dw of None \<Rightarrow> self | Some v \<Rightarrow> self\<lparr>demand_weight := v\<rparr>);
          self = (case em of None \<Rightarrow> self | Some v \<Rightarrow> self\<lparr>economy_modifier := v\<rparr>);
          self = (case pm of None \<Rightarrow> self | Some v \<Rightarrow> self\<lparr>premium_modifier := v\<rparr>);
          self = (case spm of None \<Rightarrow> self | Some v \<Rightarrow> self\<lparr>suggested_price_multiplier := v\<rparr>)
      in self)"

text \<open>
  Reading a field of the result of a call that may raise: \<open>None\<close> when it raised.
\<close>

definition result_field :: "('r \<Rightarrow> 'a) \<Rightarrow> py_error + 'r \<Rightarrow> 'a option" where
  "result_field f res = (case res of Inl e \<Rightarrow> None | Inr r \<Rightarrow> Some (f r))"


text \<open>
  The two constants of the rounding error of binary64: the unit roundoff \<open>2 ^ - 53\<close>, and
  half the smallest positive double, \<open>2 ^ - 1075\<close>.
\<close>

definition eps :: rat where
  "eps = pow2 (- 53)"

definition eta :: rat where
  "eta = pow2 (- 1075)"

section \<open>utils/validation.py\<close>














section \<open>ai/models.py, ai/config.py, ai/client.py\<close>

text \<open>
  A \<^verbatim>\<open>PricingRecommendation\<close> object. The field names carry the suffix \<open>_rec\<close> to keep them
  apart from the keys of the pricing result.
\<close>

record pricing_recommendation =
  material_cost_rec :: rat
  hours_worked_rec :: rat
  labor_rate_rec :: rat
  uniqueness_rec :: rat
  demand_rec :: rat
  selling_price_rec :: rat
  explanation_rec :: string

text \<open>
  The constructor, as pydantic runs it: the bounds of the fields first
  (\<^verbatim>\<open>ge=0\<close>, \<^verbatim>\<open>confloat(ge=1, le=10)\<close>), then the validator
  \<^verbatim>\<open>round_to_one_decimal\<close> on \<^verbatim>\<open>uniqueness\<close> and \<^verbatim>\<open>demand\<close>.
\<close>

definition PricingRecommendation ::
  "float_model \<Rightarrow> rat \<Rightarrow> rat \<Rightarrow> rat \<Rightarrow> rat \<Rightarrow> rat \<Rightarrow> rat \<Rightarrow> string
     \<Rightarrow> py_error + pricing_recommendation" where
  "PricingRecommendation m =
     (\<lambda>material_cost hours_worked labor_rate uniqueness demand selling_price explanation.
      if material_cost < 0 \<or> hours_worked < 0 \<or> labor_rate < 0
         \<or> uniqueness < 1 \<or> 10 < uniqueness \<or> demand < 1 \<or> 10 < demand \<or> selling_price < 0
      then Inl ValidationError
      else Inr \<lparr>material_cost_rec = material_cost,
                hours_worked_rec = hours_worked,
                labor_rate_rec = labor_rate,
                uniqueness_rec = py_round m uniqueness 1,
                demand_rec = py_round m demand 1,
                selling_price_rec = selling_price,
                explanation_rec = explanation\<rparr>)"

definition DEFAULT_PRICING_PARAMETERS :: "string \<rightharpoonup> rat" where
  "DEFAULT_PRICING_PARAMETERS =
     [''material_cost'' \<mapsto> 10, ''hours_worked'' \<mapsto> 2, ''labor_rate'' \<mapsto> 15,
      ''uniqueness'' \<mapsto> 5, ''demand'' \<mapsto> 5, ''selling_price'' \<mapsto> 0]"

text \<open>\<^verbatim>\<open>d[key]\<close> raises \<^verbatim>\<open>KeyError\<close> for a missing key.\<close>

definition getitem :: "(string \<rightharpoonup> 'v) \<Rightarrow> string \<Rightarrow> py_error + 'v" where
  "getitem d key = (case d key of None \<Rightarrow> Inl (KeyError key) | Some v \<Rightarrow> Inr v)"

text \<open>
  An \<^verbatim>\<open>AIClient\<close>: its API key and its OpenAI client object, either of which may be
  \<^verbatim>\<open>None\<close>. The client object is modelled by what lines 156 to 209 of
  \<^verbatim>\<open>get_pricing_recommendation\<close> come to for a conversation summary: the recommendation
  parsed from the response, or the exception raised on the way (the request itself, the
  JSON parsing, a missing key, the constructor).
\<close>

record AIClient =
  api_key :: "string option"
  client :: "(string \<Rightarrow> py_error + pricing_recommendation) option"

definition is_available :: "AIClient \<Rightarrow> bool" where
  "is_available self = (client self \<noteq> None \<and> api_key self \<noteq> None)"

text \<open>
  \<^verbatim>\<open>get_pricing_recommendation\<close> catches every exception and returns \<^verbatim>\<open>None\<close> for it, so it
  always returns; its result type leaves room for a raise because its caller guards
  against one.
\<close>

definition get_pricing_recommendation ::
  "AIClient \<Rightarrow> string \<Rightarrow> py_error + pricing_recommendation option" where
  "get_pricing_recommendation self conversation_summary =
     (if \<not> is_available self then Inr None
      else case client self of
             None \<Rightarrow> Inr None
           | Some request \<Rightarrow>
               (case request conversation_summary of
                  Inl e \<Rightarrow> Inr None
                | Inr recommendation \<Rightarrow> Inr (Some recommendation)))"

section \<open>ai/chat_handler.py\<close>

record chat_message =
  role :: string
  content :: string

record ChatHandler =
  ai_client :: AIClient
  conversation_history :: "chat_message list"


text \<open>\<^verbatim>\<open>str.capitalize\<close> and \<^verbatim>\<open>str.join\<close>, on ASCII text.\<close>

definition ascii_upper :: "char \<Rightarrow> char" where
  "ascii_upper c =
     (let n = (of_char c :: nat) in if 97 \<le> n \<and> n \<le> 122 then char_of (n - 32) else c)"

definition ascii_lower :: "char \<Rightarrow> char" where
  "ascii_lower c =
     (let n = (of_char c :: nat) in if 65 \<le> n \<and> n \<le> 90 then char_of (n + 32) else c)"

definition capitalize :: "string \<Rightarrow> string" where
  "capitalize s = (case s of [] \<Rightarrow> [] | c # cs \<Rightarrow> ascii_upper c # map ascii_lower cs)"

fun join :: "string \<Rightarrow> string list \<Rightarrow> string" where
  "join sep [] = []"
| "join sep [x] = x"
| "join sep (x # y # ys) = x @ sep @ join sep (y # ys)"

definition conversation_summary_of :: "chat_message list \<Rightarrow> string" where
  "conversation_summary_of history =
     join [CHR 0x0A] (map (\<lambda>msg. capitalize (role msg) @ '': '' @ content msg) history)"

text \<open>
  \<^verbatim>\<open>get_recommendations\<close> returns the recommendation or \<^verbatim>\<open>None\<close>; the second component
  lists the conversation summaries it has passed to
  \<^verbatim>\<open>ai_client.get_pricing_recommendation\<close>, in order.
\<close>

definition get_recommendations :: "ChatHandler \<Rightarrow> pricing_recommendation option \<times> string list" where
  "get_recommendations self =
     (if length (conversation_history self) < 3 then (None, [])
      else let conversation_summary = conversation_summary_of (conversation_history self)
           in (case get_pricing_recommendation (ai_client self) conversation_summary of
                 Inl e \<Rightarrow> None
               | Inr None \<Rightarrow> None
               | Inr (Some recommendations) \<Rightarrow> Some recommendations,
               [conversation_summary]))"

section \<open>ui/chat_frame.py\<close>

text \<open>
  \<^verbatim>\<open>_generate_recommendations\<close> yields the value it hands to
  \<^verbatim>\<open>_display_recommendations\<close> and the system messages it adds to the chat.
\<close>

definition generate_recommendations ::
  "float_model \<Rightarrow> ChatHandler \<Rightarrow> py_error + (pricing_recommendation option \<times> string list)" where
  "generate_recommendations m chat_handler =
     (let recommendations = fst (get_recommendations chat_handler)
      in if recommendations = None \<and> \<not> is_available (ai_client chat_handler)
         then
           and_then (getitem DEFAULT_PRICING_PARAMETERS ''material_cost'') (\<lambda>material_cost.
           and_then (getitem DEFAULT_PRICING_PARAMETERS ''hours_worked'') (\<lambda>hours_worked.
           and_then (getitem DEFAULT_PRICING_PARAMETERS ''labor_rate'') (\<lambda>labor_rate.
           and_then (getitem DEFAULT_PRICING_PARAMETERS ''uniqueness'') (\<lambda>uniqueness.
           and_then (getitem DEFAULT_PRICING_PARAMETERS ''demand'') (\<lambda>demand.
           and_then (getitem DEFAULT_PRICING_PARAMETERS ''selling_price'') (\<lambda>selling_price.
           and_then
             (PricingRecommendation m material_cost hours_worked labor_rate uniqueness demand
                selling_price
                (''These are default recommendations since the AI is not available. ''
                 @ ''In a real scenario, these would be generated based on our conversation.''))
             (\<lambda>fallback.
                Inr (Some fallback,
                     [''Using default recommendations since the AI is not available. ''
                      @ ''Enter your OpenAI API key in the .env file to enable AI features.'']))))))))
         else Inr (recommendations, []))"

text \<open>
  \<^verbatim>\<open>_display_recommendations\<close> shows the recommendation with its explanation and an apply
  button, or the system message that none could be generated.
\<close>

datatype displayed = Recommendation_shown pricing_recommendation | Could_not_generate

definition display_recommendations :: "pricing_recommendation option \<Rightarrow> displayed" where
  "display_recommendations recommendations =
     (case recommendations of
        Some r \<Rightarrow> Recommendation_shown r
      | None \<Rightarrow> Could_not_generate)"

text \<open>A completion service that is configured but fails on every request.\<close>

definition failing_request :: "string \<Rightarrow> py_error + pricing_recommendation" where
  "failing_request conversation_summary = Inl APIError"


text \<open>A conversation of one exchange: the system prompt, a question, an answer.\<close>

definition one_exchange :: "chat_message list" where
  "one_exchange =
     [\<lparr>role = ''system'', content = ''You are an expert pricing assistant.''\<rparr>,
      \<lparr>role = ''user'', content = ''I make silver rings.''\<rparr>,
      \<lparr>role = ''assistant'', content = ''What do the materials cost?''\<rparr>]"


section \<open>Rounding lemmas\<close>

lemma round_half_even_cases:
  "round_half_even x = \<lfloor>x\<rfloor> \<or> round_half_even x = \<lfloor>x\<rfloor> + 1"
  by (simp add: round_half_even_def Let_def)

lemma round_half_even_of_int: "round_half_even (of_int k) = k"
  by (simp add: round_half_even_def Let_def)

lemma round_half_even_nonneg: "0 \<le> x \<Longrightarrow> 0 \<le> round_half_even x"
  using round_half_even_cases [of x] by auto



lemma pow2_pos: "0 < pow2 e"
  by (simp add: pow2_def)

lemma rnd_zero: "rnd m 0 = 0"
  by (cases m) (simp_all add: binary64_def)

lemma rnd_nonneg: "0 \<le> x \<Longrightarrow> 0 \<le> rnd m x"
proof (cases m)
  case Exact
  assume "0 \<le> x" with Exact show ?thesis by simp
next
  case Binary64
  assume x: "0 \<le> x"
  have "0 \<le> round_half_even (x / pow2 e)" for e
    using x pow2_pos [of e] by (intro round_half_even_nonneg) simp
  then show ?thesis
    using Binary64 pow2_pos by (simp add: binary64_def Let_def less_imp_le)
qed


lemma py_round_zero: "py_round m 0 n = 0"
  by (simp add: py_round_def round_half_even_of_int [of 0, simplified] rnd_zero)

lemma py_round_nonneg: "0 \<le> x \<Longrightarrow> 0 \<le> py_round m x n"
  unfolding py_round_def
  by (intro rnd_nonneg divide_nonneg_nonneg) (simp_all add: round_half_even_nonneg)




section \<open>What \<^verbatim>\<open>calculate_price\<close> returns\<close>

text \<open>The call never raises: both divisions sit under a test that the divisor is positive.\<close>

lemma calculate_price_total: "\<exists>r. calculate_price m self mc hw lr u d sp = Inr r"
  by (simp add: calculate_price_def Let_def and_then_def py_truediv_def)

lemma calculate_price_fields:
  assumes "calculate_price m self mc hw lr u d sp = Inr r"
  shows "material_cost r = mc"
    and "labor_cost r = rnd m (hw * lr)"
    and "base_price r = rnd m (mc + labor_cost r)"
    and "uniqueness_adjustment r = rnd m (rnd m (base_price r * rnd m (u - 5)) * uniqueness_weight self)"
    and "demand_adjustment r = rnd m (rnd m (base_price r * rnd m (d - 5)) * demand_weight self)"
    and "factor_adjustment r = rnd m (uniqueness_adjustment r + demand_adjustment r)"
    and "adjusted_price r = rnd m (base_price r + factor_adjustment r)"
    and "final_price r = py_round m (unrounded_final_price m self (adjusted_price r) sp) 2"
    and "economy_price r =
           py_round m (rnd m (unrounded_final_price m self (adjusted_price r) sp * economy_modifier self)) 2"
    and "premium_price r =
           py_round m (rnd m (unrounded_final_price m self (adjusted_price r) sp * premium_modifier self)) 2"
    and "profit_amount r =
           py_round m (rnd m (unrounded_final_price m self (adjusted_price r) sp - adjusted_price r)) 2"
    and "profit_margin_percentage r =
           py_round m
             (if 0 < unrounded_final_price m self (adjusted_price r) sp
              then rnd m (rnd m (rnd m (unrounded_final_price m self (adjusted_price r) sp - adjusted_price r)
                                  / unrounded_final_price m self (adjusted_price r) sp) * 100)
              else 0) 2"
    and "markup_percentage r =
           py_round m
             (if 0 < adjusted_price r
              then rnd m (rnd m (rnd m (unrounded_final_price m self (adjusted_price r) sp - adjusted_price r)
                                  / adjusted_price r) * 100)
              else 0) 2"
    and "selling_price r = (case sp of None \<Rightarrow> 0 | Some p \<Rightarrow> p)"
  using assms
  by (auto simp: calculate_price_def Let_def and_then_def py_truediv_def split: if_splits)

lemma result_field_Inr: "res = Inr r \<Longrightarrow> result_field f res = Some (f r)"
  by (simp add: result_field_def)

section \<open>The rounding error of binary64\<close>

text \<open>
  Rounding to the nearest double moves a value \<open>x\<close> by at most \<open>\<bar>x\<bar> * 2 ^ - 53\<close>, or by
  \<open>2 ^ - 1075\<close> where the doubles are subnormal.
\<close>

lemma pow2_powi: "pow2 e = 2 powi e"
  by (simp add: pow2_def power_int_def field_simps)

lemma pow2_add: "pow2 (a + b) = pow2 a * pow2 b"
  by (simp add: pow2_powi power_int_add)

lemma pow2_mono: "a \<le> b \<Longrightarrow> pow2 a \<le> pow2 b"
  by (simp add: pow2_powi power_int_increasing)

lemma pow2_ilog2_le: "x \<noteq> 0 \<Longrightarrow> pow2 (ilog2 x) \<le> \<bar>x\<bar>"
proof -
  assume x: "x \<noteq> 0"
  obtain p q where pq: "quotient_of \<bar>x\<bar> = (p, q)" by (cases "quotient_of \<bar>x\<bar>")
  have q: "0 < q" using pq by (rule quotient_of_denom_pos)
  have ax: "\<bar>x\<bar> = of_int p / of_int q" using pq by (rule quotient_of_div)
  have "0 < \<bar>x\<bar>" using x by simp
  with ax q have p: "0 < p" by (simp add: zero_less_divide_iff)
  define n where "n = bitlen p - bitlen q"
  show ?thesis
  proof (cases "pow2 n \<le> \<bar>x\<bar>")
    case True
    then show ?thesis by (simp add: ilog2_def pq n_def)
  next
    case False
    then have il: "ilog2 x = n - 1" by (simp add: ilog2_def pq n_def)
    have bp: "(2::int) ^ nat (bitlen p - 1) \<le> p" using bitlen_bounds [OF p] by simp
    have bq: "q < (2::int) ^ nat (bitlen q)" using bitlen_bounds [OF q] by simp
    have p1: "1 \<le> bitlen p" using p by (auto simp: bitlen_alt_def)
    have q0: "0 \<le> bitlen q" by (rule bitlen_nonneg)
    have P: "pow2 (bitlen p - 1) \<le> of_int p"
    proof -
      have "(of_int ((2::int) ^ nat (bitlen p - 1)) :: rat) \<le> of_int p"
        using bp by (simp only: of_int_le_iff)
      then show ?thesis using p1 by (simp add: pow2_def)
    qed
    have Q: "of_int q \<le> pow2 (bitlen q)"
    proof -
      have "(of_int q :: rat) \<le> of_int ((2::int) ^ nat (bitlen q))"
        using bq by (simp only: of_int_le_iff)
      then show ?thesis using q0 by (simp add: pow2_def)
    qed
    have "pow2 (n - 1) * pow2 (bitlen q) = pow2 (bitlen p - 1)"
      by (simp add: pow2_add [symmetric] n_def)
    then have "pow2 (n - 1) * of_int q \<le> of_int p"
      using P Q pow2_pos [of "n - 1"]
      by (metis mult_left_mono less_imp_le order_trans)
    then have "pow2 (n - 1) \<le> of_int p / of_int q"
      using q by (simp add: pos_le_divide_eq)
    then show ?thesis by (simp add: il ax)
  qed
qed

lemma round_half_even_error: "\<bar>of_int (round_half_even y) - y\<bar> \<le> 1 / 2"
proof -
  have f: "of_int \<lfloor>y\<rfloor> \<le> y" "y < of_int \<lfloor>y\<rfloor> + 1" by linarith+
  show ?thesis
    using f by (auto simp: round_half_even_def Let_def abs_le_iff)
qed


lemma binary64_error: "\<bar>binary64 x - x\<bar> \<le> \<bar>x\<bar> * eps + eta"
proof (cases "x = 0")
  case True
  then show ?thesis by (simp add: binary64_def eps_def eta_def less_imp_le pow2_pos)
next
  case False
  define e where "e = max (ilog2 x) (- 1022)"
  define v where "v = pow2 (e - 52)"
  have v: "0 < v" by (simp add: v_def pow2_pos)
  have b: "binary64 x = of_int (round_half_even (x / v)) * v"
    using False by (simp add: binary64_def Let_def e_def v_def)
  have "binary64 x - x = (of_int (round_half_even (x / v)) - x / v) * v"
    using v by (simp add: b left_diff_distrib)
  then have "\<bar>binary64 x - x\<bar> = \<bar>of_int (round_half_even (x / v)) - x / v\<bar> * v"
    using v by (simp add: abs_mult)
  also have "\<dots> \<le> 1 / 2 * v"
    using round_half_even_error [of "x / v"] v by (intro mult_right_mono) simp_all
  finally have h: "\<bar>binary64 x - x\<bar> \<le> v / 2" by simp
  have "v / 2 = pow2 (e - 53)"
    using pow2_add [of "e - 53" 1] by (simp add: v_def pow2_def)
  also have "\<dots> \<le> \<bar>x\<bar> * eps + eta"
  proof (cases "- 1022 \<le> ilog2 x")
    case True
    then have "e = ilog2 x" by (simp add: e_def)
    then have "pow2 (e - 53) = pow2 (ilog2 x) * eps"
      using pow2_add [of "ilog2 x" "- 53"] by (simp add: eps_def)
    also have "\<dots> \<le> \<bar>x\<bar> * eps"
      using pow2_ilog2_le [OF False] pow2_pos [of "- 53"]
      by (intro mult_right_mono) (simp_all add: eps_def less_imp_le)
    finally show ?thesis using pow2_pos [of "- 1075"] by (simp add: eta_def)
  next
    case False
    then have "e = - 1022" by (simp add: e_def)
    then have "pow2 (e - 53) = eta" by (simp add: eta_def)
    moreover have "0 \<le> \<bar>x\<bar> * eps" using pow2_pos [of "- 53"] by (simp add: eps_def less_imp_le)
    ultimately show ?thesis by simp
  qed
  finally show ?thesis using h by simp
qed

lemma binary64_zero: "binary64 0 = 0"
  by (simp add: binary64_def)

lemma eps_pos: "0 < eps"
  by (simp add: eps_def pow2_pos)

lemma eps_small: "eps \<le> 1 / 1024"
proof -
  have "pow2 (- 53) \<le> pow2 (- 10)" by (rule pow2_mono) simp
  then show ?thesis by (simp add: eps_def pow2_def)
qed

lemma eta_le_eps: "eta \<le> eps"
  unfolding eta_def eps_def by (rule pow2_mono) simp

lemma eta_le_eps_times:
  assumes "pow2 (- 1000) \<le> b"
  shows "eta \<le> eps * b"
proof -
  have "eta = pow2 (- 75) * pow2 (- 1000)"
    using pow2_add [of "- 75" "- 1000"] by (simp add: eta_def)
  also have "\<dots> \<le> pow2 (- 75) * b"
    using assms pow2_pos [of "- 75"] by (intro mult_left_mono) simp_all
  also have "\<dots> \<le> eps * b"
  proof -
    have "pow2 (- 75) \<le> eps" unfolding eps_def by (rule pow2_mono) simp
    moreover have "0 \<le> b" using assms pow2_pos [of "- 1000"] by linarith
    ultimately show ?thesis by (intro mult_right_mono)
  qed
  finally show ?thesis .
qed

lemma rounding_step:
  assumes "\<bar>x\<bar> \<le> c * b" and "eta \<le> eps * b"
  shows "\<bar>binary64 x - x\<bar> \<le> (c + 1) * (eps * b)"
proof -
  have "\<bar>x\<bar> * eps \<le> c * b * eps"
    using assms(1) eps_pos by (intro mult_right_mono) simp_all
  with binary64_error [of x] assms(2) show ?thesis
    by (simp add: algebra_simps)
qed

lemma weighted_adjustment:
  assumes b: "0 \<le> b" and e: "eta \<le> eps * b" and a: "\<bar>a\<bar> \<le> 5"
    and w: "\<bar>w - w0\<bar> \<le> 2 * eps" and w0: "0 \<le> w0" "w0 \<le> 1 / 20"
  shows "\<bar>binary64 (binary64 (b * binary64 a) * w) - b * a * w0\<bar> \<le> 20 * (eps * b)"
proof -
  define E where "E = eps * b"
  define t where "t = binary64 a"
  define p where "p = binary64 (b * t)"
  have E0: "0 \<le> E" using b eps_pos by (simp add: E_def)
  have Eb: "E \<le> b / 1024"
    using mult_right_mono [OF eps_small b] by (simp add: E_def)
  have "\<bar>a\<bar> * eps \<le> 5 * eps"
    using a eps_pos by (intro mult_right_mono) simp_all
  with binary64_error [of a] eta_le_eps have T: "\<bar>t - a\<bar> \<le> 6 * eps"
    by (simp add: t_def)
  have t6: "\<bar>t\<bar> \<le> 6" using T a eps_small by linarith
  have "\<bar>b * t\<bar> = b * \<bar>t\<bar>" using b by (simp add: abs_mult)
  also have "\<dots> \<le> b * 6" using t6 b by (intro mult_left_mono)
  finally have bt: "\<bar>b * t\<bar> \<le> 6 * b" by simp
  have P: "\<bar>p - b * t\<bar> \<le> 7 * E"
    using rounding_step [OF bt e] by (simp add: p_def E_def)
  have "\<bar>b * t - b * a\<bar> = b * \<bar>t - a\<bar>"
    using b by (simp add: abs_mult right_diff_distrib [symmetric])
  also have "\<dots> \<le> b * (6 * eps)" using T b by (intro mult_left_mono)
  finally have bta: "\<bar>b * t - b * a\<bar> \<le> 6 * E" by (simp add: E_def mult_ac)
  have pa: "\<bar>p - b * a\<bar> \<le> 13 * E" using P bta by linarith
  have "\<bar>b * a\<bar> = b * \<bar>a\<bar>" using b by (simp add: abs_mult)
  also have "\<dots> \<le> b * 5" using a b by (intro mult_left_mono)
  finally have ba: "\<bar>b * a\<bar> \<le> 5 * b" by simp
  have p6: "\<bar>p\<bar> \<le> 6 * b" using pa ba Eb b by linarith
  have w1: "\<bar>w\<bar> \<le> 1" using w w0 eps_small by linarith
  have "\<bar>p * (w - w0)\<bar> = \<bar>p\<bar> * \<bar>w - w0\<bar>" by (simp add: abs_mult)
  also have "\<dots> \<le> (6 * b) * (2 * eps)"
    using p6 w b by (intro mult_mono) simp_all
  finally have A1: "\<bar>p * (w - w0)\<bar> \<le> 12 * E" by (simp add: E_def mult_ac)
  have "\<bar>(p - b * a) * w0\<bar> = \<bar>p - b * a\<bar> * w0" using w0 by (simp add: abs_mult)
  also have "\<dots> \<le> (13 * E) * (1 / 20)"
    using pa w0 E0 by (intro mult_mono) simp_all
  finally have A2: "\<bar>(p - b * a) * w0\<bar> \<le> E" using E0 by simp
  have "p * w - b * a * w0 = p * (w - w0) + (p - b * a) * w0"
    by (simp add: algebra_simps)
  with A1 A2 have Q: "\<bar>p * w - b * a * w0\<bar> \<le> 13 * E" by linarith
  have "\<bar>p * w\<bar> = \<bar>p\<bar> * \<bar>w\<bar>" by (simp add: abs_mult)
  also have "\<dots> \<le> (6 * b) * 1"
    using p6 w1 b by (intro mult_mono) simp_all
  finally have pw: "\<bar>p * w\<bar> \<le> 6 * b" by simp
  have U: "\<bar>binary64 (p * w) - p * w\<bar> \<le> 7 * E"
    using rounding_step [OF pw e] by (simp add: E_def)
  from U Q show ?thesis by (simp add: p_def t_def E_def)
qed

lemma binary64_pos:
  assumes "pow2 (- 1000) \<le> x"
  shows "0 < binary64 x"
proof -
  have x: "0 < x" using assms pow2_pos [of "- 1000"] by linarith
  have e: "eta \<le> eps * x" using assms by (rule eta_le_eps_times)
  have "\<bar>x\<bar> \<le> 1 * x" using x by simp
  from rounding_step [OF this e] have "\<bar>binary64 x - x\<bar> \<le> 2 * (eps * x)" by simp
  moreover have "eps * x \<le> x / 1024"
    using mult_right_mono [OF eps_small less_imp_le [OF x]] by simp
  ultimately show ?thesis using x by linarith
qed

lemma default_weight_errors:
  "\<bar>uniqueness_weight (init Binary64) - 1 / 20\<bar> \<le> 2 * eps"
  "\<bar>demand_weight (init Binary64) - 1 / 25\<bar> \<le> 2 * eps"
  "suggested_price_multiplier (init Binary64) = 2"
proof -
  have "\<bar>(1 / 20 :: rat)\<bar> * eps \<le> 1 * eps"
    using eps_pos by (intro mult_right_mono) simp_all
  with binary64_error [of "1 / 20"] eta_le_eps
  show "\<bar>uniqueness_weight (init Binary64) - 1 / 20\<bar> \<le> 2 * eps"
    by (simp add: init_def)
  have "\<bar>(1 / 25 :: rat)\<bar> * eps \<le> 1 * eps"
    using eps_pos by (intro mult_right_mono) simp_all
  with binary64_error [of "1 / 25"] eta_le_eps
  show "\<bar>demand_weight (init Binary64) - 1 / 25\<bar> \<le> 2 * eps"
    by (simp add: init_def)
  show "suggested_price_multiplier (init Binary64) = 2" by code_simp
qed


text \<open>A positive double is at least the smallest one, and such a value does not round to 0.\<close>

lemma binary64_grid:
  assumes "0 < binary64 x"
  shows "pow2 (- 1074) \<le> binary64 x"
proof -
  have x: "x \<noteq> 0" using assms by (auto simp: binary64_zero)
  define e where "e = max (ilog2 x) (- 1022)"
  define v where "v = pow2 (e - 52)"
  define k where "k = round_half_even (x / v)"
  have v: "0 < v" by (simp add: v_def pow2_pos)
  have b: "binary64 x = of_int k * v"
    using x by (simp add: binary64_def Let_def e_def v_def k_def)
  with assms v have "0 < (of_int k :: rat)" by (simp add: zero_less_mult_iff)
  then have "1 \<le> k" by simp
  then have "(1::rat) \<le> of_int k" by simp
  then have "1 * v \<le> of_int k * v" using v by (intro mult_right_mono) simp_all
  moreover have "pow2 (- 1074) \<le> v" unfolding v_def by (rule pow2_mono) (simp add: e_def)
  ultimately show ?thesis using b by simp
qed

lemma binary64_pos_tiny:
  assumes "pow2 (- 1074) \<le> x"
  shows "0 < binary64 x"
proof -
  have x: "0 < x" using assms pow2_pos [of "- 1074"] by linarith
  have "pow2 (- 1074) = 2 * eta"
    using pow2_add [of 1 "- 1075"] by (simp add: eta_def pow2_def)
  with assms have e: "eta \<le> x / 2" by simp
  have xe: "x * eps \<le> x / 1024"
    using mult_left_mono [OF eps_small less_imp_le [OF x]] by simp
  have ax: "\<bar>x\<bar> = x" using x by simp
  from binary64_error [of x] have "\<bar>binary64 x - x\<bar> \<le> x * eps + eta"
    by (simp only: ax)
  with e xe x show ?thesis by linarith
qed

lemma binary64_sum_zero:
  assumes s: "binary64 (a + binary64 c) = 0" and a: "binary64 a = a" "0 \<le> a"
    and c: "0 \<le> binary64 c"
  shows "a = 0 \<and> binary64 c = 0"
proof (rule ccontr)
  assume n: "\<not> (a = 0 \<and> binary64 c = 0)"
  have "pow2 (- 1074) \<le> a + binary64 c"
  proof (cases "a = 0")
    case True
    with n c have "0 < binary64 c" by simp
    from binary64_grid [OF this] True show ?thesis by simp
  next
    case False
    with a have "0 < binary64 a" by simp
    from binary64_grid [OF this] a c show ?thesis by simp
  qed
  from binary64_pos_tiny [OF this] s show False by simp
qed
lemma binary64_default_bounds:
  assumes r: "calculate_price Binary64 (init Binary64) mc hw lr u d sp = Inr r"
    and v: "0 \<le> mc" "0 \<le> hw" "0 \<le> lr" "1 \<le> u" "u \<le> 10" "1 \<le> d" "d \<le> 10"
    and range: "base_price r = 0 \<or> pow2 (- 1000) \<le> base_price r"
  shows "- (36 / 100) * base_price r - base_price r * pow2 (- 46) \<le> factor_adjustment r"
    and "64 / 100 * base_price r - base_price r * pow2 (- 46) \<le> adjusted_price r"
    and "0 \<le> base_price r"
    and "0 \<le> adjusted_price r"
    and "0 \<le> final_price r"
    and "adjusted_price r \<le> 0 \<longrightarrow> base_price r = 0"
    and "unrounded_final_price Binary64 (init Binary64) (adjusted_price r) sp \<le> 0
           \<longrightarrow> base_price r = 0"
proof -
  note f = calculate_price_fields [OF r]
  define b where "b = base_price r"
  define E where "E = eps * b"
  let ?F = "unrounded_final_price Binary64 (init Binary64) (adjusted_price r) sp"
  have "0 \<le> labor_cost r" unfolding f(2) using v by (intro rnd_nonneg) simp
  then have b0: "0 \<le> b" unfolding b_def f(3) using v by (intro rnd_nonneg) simp
  have tol: "b * pow2 (- 46) = 128 * E"
    using pow2_add [of 7 "- 53"] by (simp add: E_def eps_def pow2_def)
  have E0: "0 \<le> E" using b0 eps_pos by (simp add: E_def)
  have Fcases: "(\<exists>p. sp = Some p \<and> 0 < p \<and> ?F = p) \<or> ?F = binary64 (adjusted_price r * 2)"
    by (cases sp) (simp_all add: unrounded_final_price_def default_weight_errors(3))
  have main: "- (36 / 100) * b - 128 * E \<le> factor_adjustment r
      \<and> 64 / 100 * b - 128 * E \<le> adjusted_price r
      \<and> 0 \<le> adjusted_price r \<and> 0 \<le> ?F
      \<and> (adjusted_price r \<le> 0 \<longrightarrow> b = 0) \<and> (?F \<le> 0 \<longrightarrow> b = 0)"
  proof (cases "b = 0")
    case True
    then have z: "base_price r = 0" by (simp add: b_def)
    have ua: "uniqueness_adjustment r = 0" unfolding f(4) z by (simp add: binary64_zero)
    have da: "demand_adjustment r = 0" unfolding f(5) z by (simp add: binary64_zero)
    have fa: "factor_adjustment r = 0" unfolding f(6) ua da by (simp add: binary64_zero)
    have ap: "adjusted_price r = 0" unfolding f(7) z fa by (simp add: binary64_zero)
    have "0 \<le> ?F" using Fcases by (auto simp: ap binary64_zero)
    then show ?thesis using True fa ap by (simp add: E_def)
  next
    case False
    with range have lo: "pow2 (- 1000) \<le> b" by (simp add: b_def)
    have bpos: "0 < b" using False b0 by simp
    have e: "eta \<le> eps * b" using lo by (rule eta_le_eps_times)
    have Eb: "E \<le> b / 1024"
      using mult_right_mono [OF eps_small b0] by (simp add: E_def)
    define xu where "xu = b * (u - 5) * (1 / 20)"
    define xd where "xd = b * (d - 5) * (1 / 25)"
    have au: "\<bar>u - 5\<bar> \<le> 5" and ad: "\<bar>d - 5\<bar> \<le> 5" using v by auto
    have UA: "\<bar>uniqueness_adjustment r - xu\<bar> \<le> 20 * E"
      using weighted_adjustment [OF b0 e au default_weight_errors(1)]
      by (simp add: f(4) b_def xu_def E_def)
    have DA: "\<bar>demand_adjustment r - xd\<bar> \<le> 20 * E"
      using weighted_adjustment [OF b0 e ad default_weight_errors(2)]
      by (simp add: f(5) b_def xd_def E_def)
    have m1: "b * (- 4) \<le> b * (u - 5)" using v b0 by (intro mult_left_mono) simp_all
    have m2: "b * (u - 5) \<le> b * 5" using v b0 by (intro mult_left_mono) simp_all
    have m3: "b * (- 4) \<le> b * (d - 5)" using v b0 by (intro mult_left_mono) simp_all
    have m4: "b * (d - 5) \<le> b * 5" using v b0 by (intro mult_left_mono) simp_all
    have xb: "- (b / 5) \<le> xu" "xu \<le> b / 4" "- (4 * b / 25) \<le> xd" "xd \<le> b / 5"
      unfolding xu_def xd_def using m1 m2 m3 m4 by linarith+
    define s where "s = uniqueness_adjustment r + demand_adjustment r"
    have s1: "\<bar>s\<bar> \<le> 1 * b" using UA DA xb Eb b0 unfolding s_def by linarith
    have FA: "\<bar>factor_adjustment r - s\<bar> \<le> 2 * E"
      using rounding_step [OF s1 e] by (simp add: f(6) s_def E_def)
    have c1: "- (36 / 100) * b - 42 * E \<le> factor_adjustment r"
      using FA UA DA xb unfolding s_def by linarith
    have x3: "\<bar>b + factor_adjustment r\<bar> \<le> 3 * b"
      using FA s1 Eb b0 by linarith
    have AP: "\<bar>adjusted_price r - (b + factor_adjustment r)\<bar> \<le> 4 * E"
      using rounding_step [OF x3 e] by (simp add: f(7) b_def E_def)
    have c2: "64 / 100 * b - 46 * E \<le> adjusted_price r"
      using AP c1 by linarith
    have appos: "b / 2 \<le> adjusted_price r" using c2 Eb b0 by linarith
    have "0 < ?F"
    proof -
      have "pow2 (- 1000) \<le> adjusted_price r * 2" using appos lo by linarith
      then have "0 < binary64 (adjusted_price r * 2)" by (rule binary64_pos)
      with Fcases show ?thesis by auto
    qed
    then show ?thesis using c1 c2 appos bpos E0 by auto
  qed
  have fp: "0 \<le> final_price r" unfolding f(8) using main by (intro py_round_nonneg) simp
  from main tol b0 fp
  show "- (36 / 100) * base_price r - base_price r * pow2 (- 46) \<le> factor_adjustment r"
    and "64 / 100 * base_price r - base_price r * pow2 (- 46) \<le> adjusted_price r"
    and "0 \<le> base_price r"
    and "0 \<le> adjusted_price r"
    and "0 \<le> final_price r"
    and "adjusted_price r \<le> 0 \<longrightarrow> base_price r = 0"
    and "unrounded_final_price Binary64 (init Binary64) (adjusted_price r) sp \<le> 0
           \<longrightarrow> base_price r = 0"
    by (simp_all add: b_def)
qed

section \<open>Properties of the pricing engine\<close>

text \<open>
  Claim C1, as amended. The claim says that a selling price \<open>P > 0\<close> is returned as
  \<^verbatim>\<open>final_price\<close> exactly and that otherwise \<^verbatim>\<open>final_price\<close> is
  \<^verbatim>\<open>adjusted_price * suggested_price_multiplier\<close>. The returned \<^verbatim>\<open>final_price\<close> has gone
  through \<^verbatim>\<open>round(final_price, 2)\<close> (line 73): for every input and in both number systems
  the call returns, and its \<^verbatim>\<open>final_price\<close> is the 2-decimal rounding of the selected
  price, which is \<open>P\<close> when \<^verbatim>\<open>selling_price\<close> is \<open>P > 0\<close> and
  \<^verbatim>\<open>adjusted_price * suggested_price_multiplier\<close> when it is absent or not positive.
\<close>

theorem final_price_is_rounded_selection:
  "\<exists>r. calculate_price m self mc hw lr u d sp = Inr r
     \<and> final_price r = py_round m (unrounded_final_price m self (adjusted_price r) sp) 2
     \<and> unrounded_final_price m self (adjusted_price r) sp =
         (case sp of
            None \<Rightarrow> rnd m (adjusted_price r * suggested_price_multiplier self)
          | Some p \<Rightarrow> if 0 < p then p
                      else rnd m (adjusted_price r * suggested_price_multiplier self))"
proof -
  obtain r where r: "calculate_price m self mc hw lr u d sp = Inr r"
    using calculate_price_total by blast
  from calculate_price_fields(8) [OF r] r show ?thesis
    by (simp add: unrounded_final_price_def)
qed

text \<open>
  The claim as stated fails: with \<^verbatim>\<open>selling_price = 0.125\<close> (material cost 10, no
  labour, neutral ratings) the returned \<^verbatim>\<open>final_price\<close> is not 0.125, in exact
  arithmetic and in binary64 alike (it is 0.12).
\<close>

theorem final_price_not_exactly_selling_price:
  "result_field final_price (calculate_price Exact (init Exact) 10 0 0 5 5 (Some (1 / 8)))
     \<noteq> Some (1 / 8)
   \<and> result_field final_price (calculate_price Binary64 (init Binary64) 10 0 0 5 5 (Some (1 / 8)))
     \<noteq> Some (1 / 8)"
proof -
  have A: "result_field final_price (calculate_price m (init m) 10 0 0 5 5 (Some (1 / 8)))
        = Some (py_round m (1 / 8) 2)" for m
  proof -
    obtain r where r: "calculate_price m (init m) 10 0 0 5 5 (Some (1 / 8)) = Inr r"
      using calculate_price_total by blast
    have F: "unrounded_final_price m (init m) (adjusted_price r) (Some (1 / 8)) = 1 / 8"
      by (simp add: unrounded_final_price_def)
    have "final_price r = py_round m (1 / 8) 2"
      by (simp only: calculate_price_fields(8) [OF r] F)
    then show ?thesis by (simp add: result_field_Inr [OF r])
  qed
  have "py_round Exact (1 / 8) 2 \<noteq> 1 / 8" by code_simp
  moreover have "py_round Binary64 (1 / 8) 2 \<noteq> 1 / 8" by code_simp
  ultimately show ?thesis by (simp add: A)
qed

text \<open>
  The scenario of claim C2, evaluated in binary64 (the arithmetic of the Python program),
  every value written as the exact rational the double stands for.
\<close>

lemma jewelry_binary64:
  "calculate_price Binary64 (init Binary64) 5 2 15 6 7 (Some 0) =
     Inr \<lparr>material_cost = 5, labor_cost = 30, base_price = 35,
          uniqueness_adjustment = 7 / 4,
          demand_adjustment = 6305039478318695 / 2251799813685248,
          factor_adjustment = 1280711144033485 / 281474976710656,
          adjusted_price = 2783083832226611 / 70368744177664,
          profit_amount = 2783083832226611 / 70368744177664,
          profit_margin_percentage = 50,
          markup_percentage = 100,
          final_price = 2783083832226611 / 35184372088832,
          economy_price = 4730890671064351 / 70368744177664,
          premium_price = 869757678035927 / 8796093022208,
          selling_price = 0\<rparr>"
proof -
  obtain r where r: "calculate_price Binary64 (init Binary64) 5 2 15 6 7 (Some 0) = Inr r"
    using calculate_price_total by blast
  note f = calculate_price_fields [OF r]
  have mc: "material_cost r = 5" by (rule f(1))
  have lc: "labor_cost r = 30" unfolding f(2) by code_simp
  have bp: "base_price r = 35" unfolding f(3) lc by code_simp
  have ua: "uniqueness_adjustment r = 7 / 4" unfolding f(4) bp by code_simp
  have da: "demand_adjustment r = 6305039478318695 / 2251799813685248"
    unfolding f(5) bp by code_simp
  have fa: "factor_adjustment r = 1280711144033485 / 281474976710656"
    unfolding f(6) ua da by code_simp
  have ap: "adjusted_price r = 2783083832226611 / 70368744177664"
    unfolding f(7) bp fa by code_simp
  have fp: "final_price r = 2783083832226611 / 35184372088832" unfolding f(8) ap by code_simp
  have ep: "economy_price r = 4730890671064351 / 70368744177664" unfolding f(9) ap by code_simp
  have pp: "premium_price r = 869757678035927 / 8796093022208" unfolding f(10) ap by code_simp
  have pa: "profit_amount r = 2783083832226611 / 70368744177664" unfolding f(11) ap by code_simp
  have pm: "profit_margin_percentage r = 50" unfolding f(12) ap by code_simp
  have mk: "markup_percentage r = 100" unfolding f(13) ap by code_simp
  have sp: "selling_price r = 0" unfolding f(14) by simp
  show ?thesis
    unfolding r by (rule arg_cong [where f = Inr], rule pricing_result.equality)
      (simp_all add: mc lc bp ua da fa ap fp ep pp pa pm mk sp)
qed

text \<open>
  The same scenario in exact arithmetic gives the values the specification lists: they were
  computed by hand in decimal, not by the program.
\<close>

lemma jewelry_exact:
  "calculate_price Exact (init Exact) 5 2 15 6 7 (Some 0) =
     Inr \<lparr>material_cost = 5, labor_cost = 30, base_price = 35,
          uniqueness_adjustment = 175 / 100,
          demand_adjustment = 28 / 10,
          factor_adjustment = 455 / 100,
          adjusted_price = 3955 / 100,
          profit_amount = 3955 / 100,
          profit_margin_percentage = 50,
          markup_percentage = 100,
          final_price = 7910 / 100,
          economy_price = 6724 / 100,
          premium_price = 9888 / 100,
          selling_price = 0\<rparr>"
proof -
  obtain r where r: "calculate_price Exact (init Exact) 5 2 15 6 7 (Some 0) = Inr r"
    using calculate_price_total by blast
  note f = calculate_price_fields [OF r]
  have mc: "material_cost r = 5" by (rule f(1))
  have lc: "labor_cost r = 30" unfolding f(2) by code_simp
  have bp: "base_price r = 35" unfolding f(3) lc by code_simp
  have ua: "uniqueness_adjustment r = 175 / 100" unfolding f(4) bp by code_simp
  have da: "demand_adjustment r = 28 / 10" unfolding f(5) bp by code_simp
  have fa: "factor_adjustment r = 455 / 100" unfolding f(6) ua da by code_simp
  have ap: "adjusted_price r = 3955 / 100" unfolding f(7) bp fa by code_simp
  have fp: "final_price r = 7910 / 100" unfolding f(8) ap by code_simp
  have ep: "economy_price r = 6724 / 100" unfolding f(9) ap by code_simp
  have pp: "premium_price r = 9888 / 100" unfolding f(10) ap by code_simp
  have pa: "profit_amount r = 3955 / 100" unfolding f(11) ap by code_simp
  have pm: "profit_margin_percentage r = 50" unfolding f(12) ap by code_simp
  have mk: "markup_percentage r = 100" unfolding f(13) ap by code_simp
  have sp: "selling_price r = 0" unfolding f(14) by simp
  show ?thesis
    unfolding r by (rule arg_cong [where f = Inr], rule pricing_result.equality)
      (simp_all add: mc lc bp ua da fa ap fp ep pp pa pm mk sp)
qed

text \<open>
  Why the economy price is 67.23: the final price is the double nearest 79.1, the economy
  modifier is the double nearest 0.85, both a little below the decimal, and their exact
  product lies strictly below the half-way point 67.235.
\<close>

lemma economy_product_below_tie:
  "binary64 (791 / 10) = 2783083832226611 / 35184372088832"
  "binary64 (85 / 100) = 7656119366529843 / 9007199254740992"
  "(2783083832226611 / 35184372088832) * (7656119366529843 / 9007199254740992)
     < (67235 / 1000 :: rat)"
  by code_simp+

text \<open>
  Claim C2, as amended. For \<^verbatim>\<open>material_cost=5.0, hours_worked=2.0, labor_rate=15.0,
  uniqueness=6.0, demand=7.0, selling_price=0.0\<close> and the default weights, the program
  (binary64) returns \<^verbatim>\<open>labor_cost=30.0, base_price=35.0, uniqueness_adjustment=1.75,
  demand_adjustment=2.8000000000000003, factor_adjustment=4.550000000000001,
  adjusted_price=39.55, final_price=79.1, profit_amount=39.55,
  profit_margin_percentage=50.0, markup_percentage=100.0, economy_price=67.23,
  premium_price=98.88\<close>. A decimal literal \<open>x\<close> of Python is the double \<open>binary64 x\<close>.
  The product \<^verbatim>\<open>79.1 * 0.85\<close> is the double just below 67.235, so it rounds down.
\<close>

theorem jewelry_scenario:
  "calculate_price Binary64 (init Binary64) 5 2 15 6 7 (Some 0) =
     Inr \<lparr>material_cost = 5, labor_cost = 30, base_price = 35,
          uniqueness_adjustment = 175 / 100,
          demand_adjustment = binary64 (28000000000000003 / 10000000000000000),
          factor_adjustment = binary64 (4550000000000001 / 1000000000000000),
          adjusted_price = binary64 (3955 / 100),
          profit_amount = binary64 (3955 / 100),
          profit_margin_percentage = 50,
          markup_percentage = 100,
          final_price = binary64 (791 / 10),
          economy_price = binary64 (6723 / 100),
          premium_price = binary64 (9888 / 100),
          selling_price = 0\<rparr>"
proof -
  have 1: "binary64 (28000000000000003 / 10000000000000000) = 6305039478318695 / 2251799813685248"
    by code_simp
  have 2: "binary64 (4550000000000001 / 1000000000000000) = 1280711144033485 / 281474976710656"
    by code_simp
  have 3: "binary64 (3955 / 100) = 2783083832226611 / 70368744177664" by code_simp
  have 4: "binary64 (791 / 10) = 2783083832226611 / 35184372088832" by code_simp
  have 5: "binary64 (6723 / 100) = 4730890671064351 / 70368744177664" by code_simp
  have 6: "binary64 (9888 / 100) = 869757678035927 / 8796093022208" by code_simp
  have 7: "(175 / 100 :: rat) = 7 / 4" by simp
  show ?thesis unfolding 1 2 3 4 5 6 7 by (rule jewelry_binary64)
qed

text \<open>
  The claim as stated fails on the program: \<^verbatim>\<open>economy_price\<close> is not \<^verbatim>\<open>67.24\<close>,
  \<^verbatim>\<open>demand_adjustment\<close> is not \<^verbatim>\<open>2.8\<close> and \<^verbatim>\<open>factor_adjustment\<close> is not \<^verbatim>\<open>4.55\<close>.
\<close>

theorem jewelry_scenario_differs:
  "result_field economy_price (calculate_price Binary64 (init Binary64) 5 2 15 6 7 (Some 0))
     \<noteq> Some (binary64 (6724 / 100))
   \<and> result_field demand_adjustment (calculate_price Binary64 (init Binary64) 5 2 15 6 7 (Some 0))
     \<noteq> Some (binary64 (28 / 10))
   \<and> result_field factor_adjustment (calculate_price Binary64 (init Binary64) 5 2 15 6 7 (Some 0))
     \<noteq> Some (binary64 (455 / 100))"
proof -
  have 1: "4730890671064351 / 70368744177664 \<noteq> binary64 (6724 / 100)" by code_simp
  have 2: "6305039478318695 / 2251799813685248 \<noteq> binary64 (28 / 10)" by code_simp
  have 3: "1280711144033485 / 281474976710656 \<noteq> binary64 (455 / 100)" by code_simp
  have e: "result_field economy_price (calculate_price Binary64 (init Binary64) 5 2 15 6 7 (Some 0))
      = Some (4730890671064351 / 70368744177664)"
    by (simp only: result_field_Inr [OF jewelry_binary64] pricing_result.simps)
  have d: "result_field demand_adjustment (calculate_price Binary64 (init Binary64) 5 2 15 6 7 (Some 0))
      = Some (6305039478318695 / 2251799813685248)"
    by (simp only: result_field_Inr [OF jewelry_binary64] pricing_result.simps)
  have f: "result_field factor_adjustment (calculate_price Binary64 (init Binary64) 5 2 15 6 7 (Some 0))
      = Some (1280711144033485 / 281474976710656)"
    by (simp only: result_field_Inr [OF jewelry_binary64] pricing_result.simps)
  show ?thesis
    by (simp only: e d f option.inject 1 2 3 simp_thms)
qed






text \<open>
  Claim C5, as amended. The claim says that the result's \<^verbatim>\<open>profit_margin_percentage\<close> is 0
  whenever \<^verbatim>\<open>final_price\<close> is 0. The test at line 60 is on the final price before its
  rounding at line 73. \<^verbatim>\<open>calculate_price\<close> returns a result for every numeric input, in
  both number systems: no division is reached with a zero divisor. Whenever
  \<^verbatim>\<open>adjusted_price\<close> is 0 (or negative) the returned \<^verbatim>\<open>markup_percentage\<close> is 0, and
  whenever the final price before rounding is 0 (or negative) the returned
  \<^verbatim>\<open>profit_margin_percentage\<close> is 0.
\<close>

theorem calculate_price_total_and_guarded:
  "\<exists>r. calculate_price m self mc hw lr u d sp = Inr r
     \<and> (adjusted_price r \<le> 0 \<longrightarrow> markup_percentage r = 0)
     \<and> (unrounded_final_price m self (adjusted_price r) sp \<le> 0
          \<longrightarrow> profit_margin_percentage r = 0)"
proof -
  obtain r where r: "calculate_price m self mc hw lr u d sp = Inr r"
    using calculate_price_total by blast
  from calculate_price_fields(12,13) [OF r] r show ?thesis
    by (auto simp: py_round_zero)
qed

text \<open>The guards at work: all costs zero, no selling price.\<close>

theorem calculate_price_guarded_witness:
  "\<exists>r. calculate_price Binary64 (init Binary64) 0 0 0 5 5 None = Inr r
     \<and> adjusted_price r \<le> 0 \<and> markup_percentage r = 0
     \<and> unrounded_final_price Binary64 (init Binary64) (adjusted_price r) None \<le> 0
     \<and> profit_margin_percentage r = 0"
proof -
  obtain r where r: "calculate_price Binary64 (init Binary64) 0 0 0 5 5 None = Inr r"
    and g: "adjusted_price r \<le> 0 \<longrightarrow> markup_percentage r = 0"
      "unrounded_final_price Binary64 (init Binary64) (adjusted_price r) None \<le> 0
        \<longrightarrow> profit_margin_percentage r = 0"
    using calculate_price_total_and_guarded [of Binary64 "init Binary64" 0 0 0 5 5 None] by blast
  note f = calculate_price_fields [OF r]
  have ap: "adjusted_price r = 0" unfolding f(7) f(6) f(5) f(4) f(3) f(2) by code_simp
  have F: "unrounded_final_price Binary64 (init Binary64) (adjusted_price r) None = 0"
    unfolding ap by code_simp
  show ?thesis using r g ap F by auto
qed

text \<open>
  The claim as stated fails on the returned \<^verbatim>\<open>final_price\<close>: with material cost 10, no
  labour, neutral ratings and \<^verbatim>\<open>selling_price = 0.004\<close> the final price is 0.004 at line
  60, the margin is \<open>(0.004 - 10) / 0.004 * 100 = -249900\<close>, and line 73 rounds the final
  price to 0. The result has \<^verbatim>\<open>final_price\<close> 0 and \<^verbatim>\<open>profit_margin_percentage\<close>
  \<open>-249900\<close>, in exact arithmetic and in binary64.
\<close>

theorem zero_final_price_nonzero_margin:
  "result_field final_price
       (calculate_price Exact (init Exact) 10 0 0 5 5 (Some (4 / 1000))) = Some 0
   \<and> result_field profit_margin_percentage
       (calculate_price Exact (init Exact) 10 0 0 5 5 (Some (4 / 1000))) = Some (- 249900)
   \<and> result_field final_price
       (calculate_price Binary64 (init Binary64) 10 0 0 5 5 (Some (binary64 (4 / 1000))))
       = Some 0
   \<and> result_field profit_margin_percentage
       (calculate_price Binary64 (init Binary64) 10 0 0 5 5 (Some (binary64 (4 / 1000))))
       = Some (- 249900)"
proof -
  obtain x where x: "calculate_price Exact (init Exact) 10 0 0 5 5 (Some (4 / 1000)) = Inr x"
    using calculate_price_total by blast
  note f = calculate_price_fields [OF x]
  have ax: "adjusted_price x = 10" unfolding f(7) f(6) f(5) f(4) f(3) f(2) by code_simp
  have fx: "final_price x = 0" unfolding f(8) ax by code_simp
  have mx: "profit_margin_percentage x = - 249900" unfolding f(12) ax by code_simp
  obtain r where r: "calculate_price Binary64 (init Binary64) 10 0 0 5 5
      (Some (binary64 (4 / 1000))) = Inr r"
    using calculate_price_total by blast
  note g = calculate_price_fields [OF r]
  have ar: "adjusted_price r = 10" unfolding g(7) g(6) g(5) g(4) g(3) g(2) by code_simp
  have fr: "final_price r = 0" unfolding g(8) ar by code_simp
  have mr: "profit_margin_percentage r = - 249900" unfolding g(12) ar by code_simp
  show ?thesis
    by (simp only: result_field_Inr [OF x] result_field_Inr [OF r] fx mx fr mr simp_thms)
qed

text \<open>
  Claim C6. \<^verbatim>\<open>update_weights\<close> is a partial merge: each weight that is supplied replaces
  the stored one, each weight that is omitted keeps its stored value; for example
  \<^verbatim>\<open>update_weights(demand_weight=0.1)\<close> changes \<^verbatim>\<open>demand_weight\<close> and nothing else.
\<close>

theorem update_weights_partial_merge:
  "uniqueness_weight (update_weights self uw dw em pm spm) =
     (case uw of None \<Rightarrow> uniqueness_weight self | Some v \<Rightarrow> v)
   \<and> demand_weight (update_weights self uw dw em pm spm) =
     (case dw of None \<Rightarrow> demand_weight self | Some v \<Rightarrow> v)
   \<and> economy_modifier (update_weights self uw dw em pm spm) =
     (case em of None \<Rightarrow> economy_modifier self | Some v \<Rightarrow> v)
   \<and> premium_modifier (update_weights self uw dw em pm spm) =
     (case pm of None \<Rightarrow> premium_modifier self | Some v \<Rightarrow> v)
   \<and> suggested_price_multiplier (update_weights self uw dw em pm spm) =
     (case spm of None \<Rightarrow> suggested_price_multiplier self | Some v \<Rightarrow> v)
   \<and> update_weights self None (Some (1 / 10)) None None None = self\<lparr>demand_weight := 1 / 10\<rparr>"
  by (simp add: update_weights_def split: option.split)

text \<open>
  The bounds of claim C10 in exact arithmetic, with the default weights.
\<close>

lemma exact_default_bounds:
  assumes "0 \<le> mc" "0 \<le> hw" "0 \<le> lr" "1 \<le> u" "u \<le> 10" "1 \<le> d" "d \<le> 10"
  shows "\<exists>r. calculate_price Exact (init Exact) mc hw lr u d sp = Inr r
     \<and> - (36 / 100) * base_price r \<le> factor_adjustment r
     \<and> 64 / 100 * base_price r \<le> adjusted_price r
     \<and> 0 \<le> base_price r
     \<and> 0 \<le> final_price r
     \<and> (adjusted_price r \<le> 0 \<longrightarrow> mc = 0 \<and> hw * lr = 0)
     \<and> (unrounded_final_price Exact (init Exact) (adjusted_price r) sp \<le> 0
          \<longrightarrow> mc = 0 \<and> hw * lr = 0)"
proof -
  obtain r where r: "calculate_price Exact (init Exact) mc hw lr u d sp = Inr r"
    using calculate_price_total by blast
  note f = calculate_price_fields [OF r]
  define b where "b = mc + hw * lr"
  define k where "k = (u - 5) * (5 / 100) + (d - 5) * (4 / 100) + 36 / 100"
  have labor: "0 \<le> hw * lr" using assms by simp
  have b0: "0 \<le> b" using assms labor by (simp add: b_def)
  have "0 \<le> (u - 1) * (5 / 100) + (d - 1) * (4 / 100)"
    using assms by (intro add_nonneg_nonneg mult_nonneg_nonneg) simp_all
  then have k0: "0 \<le> k" unfolding k_def by (simp add: field_simps)
  have base: "base_price r = b" using f(2,3) by (simp add: b_def)
  have ua: "uniqueness_adjustment r = b * (u - 5) * (5 / 100)"
    by (simp add: f(4) base init_def)
  have da: "demand_adjustment r = b * (d - 5) * (4 / 100)"
    by (simp add: f(5) base init_def)
  have fa: "factor_adjustment r = b * (k - 36 / 100)"
    by (simp add: f(6) ua da k_def field_simps)
  have adj: "adjusted_price r = b * (k + 64 / 100)"
    by (simp add: f(7) base fa field_simps)
  have bk: "0 \<le> b * k" using b0 k0 by simp
  have c1: "- (36 / 100) * base_price r \<le> factor_adjustment r"
    using bk by (simp add: base fa field_simps)
  have c2: "64 / 100 * base_price r \<le> adjusted_price r"
    using bk by (simp add: base adj field_simps)
  have adj0: "0 \<le> adjusted_price r" using c2 b0 base by simp
  have zero: "mc = 0 \<and> hw * lr = 0" if "adjusted_price r \<le> 0"
  proof -
    from that c2 base have "64 / 100 * b \<le> 0" by simp
    with b0 have "b = 0" by simp
    with assms(1) labor show ?thesis by (simp add: b_def add_nonneg_eq_0_iff)
  qed
  let ?F = "unrounded_final_price Exact (init Exact) (adjusted_price r) sp"
  have Fadj: "(\<exists>p. sp = Some p \<and> 0 < p \<and> ?F = p) \<or> ?F = adjusted_price r * 2"
    by (cases sp) (simp_all add: unrounded_final_price_def init_def)
  have F0: "0 \<le> ?F" using Fadj adj0 by auto
  have Fz: "mc = 0 \<and> hw * lr = 0" if "?F \<le> 0"
  proof -
    from Fadj that have "adjusted_price r * 2 \<le> 0" by auto
    then have "adjusted_price r \<le> 0" by simp
    then show ?thesis by (rule zero)
  qed
  have c4: "0 \<le> final_price r" using f(8) py_round_nonneg [OF F0] by simp
  show ?thesis using r c1 c2 b0 base c4 zero Fz by blast
qed

text \<open>
  Claim C10, as amended. The claim gives the bounds \<open>factor_adjustment \<ge> -0.36 base_price\<close>
  and \<open>adjusted_price \<ge> 0.64 base_price\<close> for the default weights and validated inputs
  (costs \<open>\<ge> 0\<close>, ratings in \<open>[1, 10]\<close>). They hold in exact arithmetic, together with
  \<open>final_price \<ge> 0\<close> and the fact that the adjusted price, and the final price tested at
  line 60, fail the test \<open>> 0\<close> only when \<open>material_cost = 0\<close> and
  \<open>hours_worked * labor_rate = 0\<close>. In the binary64 arithmetic of the program the two
  bounds hold up to the rounding of the operations: for a base price that is 0 or lies
  between \<open>2 ^ - 1000\<close> and \<open>2 ^ 1000\<close> (nothing underflows or overflows),
  \<open>factor_adjustment \<ge> -0.36 base_price - base_price * 2 ^ - 46\<close> and
  \<open>adjusted_price \<ge> 0.64 base_price - base_price * 2 ^ - 46\<close>; the base price, the
  adjusted price and the final price are not negative; the adjusted price, and the final
  price tested at line 60, fail the test \<open>> 0\<close> only when the base price is 0; and for a
  material cost that is a float the base price is 0 only when the material cost and the
  labour cost are 0.
\<close>

theorem default_weights_bounds:
  assumes "0 \<le> mc" "0 \<le> hw" "0 \<le> lr" "1 \<le> u" "u \<le> 10" "1 \<le> d" "d \<le> 10"
  shows "\<exists>x r. calculate_price Exact (init Exact) mc hw lr u d sp = Inr x
     \<and> calculate_price Binary64 (init Binary64) mc hw lr u d sp = Inr r
     \<and> - (36 / 100) * base_price x \<le> factor_adjustment x
     \<and> 64 / 100 * base_price x \<le> adjusted_price x
     \<and> 0 \<le> base_price x
     \<and> 0 \<le> final_price x
     \<and> (adjusted_price x \<le> 0 \<longrightarrow> mc = 0 \<and> hw * lr = 0)
     \<and> (unrounded_final_price Exact (init Exact) (adjusted_price x) sp \<le> 0
          \<longrightarrow> mc = 0 \<and> hw * lr = 0)
     \<and> (base_price r = 0 \<or> (pow2 (- 1000) \<le> base_price r \<and> base_price r \<le> pow2 1000)
          \<longrightarrow> - (36 / 100) * base_price r - base_price r * pow2 (- 46) \<le> factor_adjustment r
            \<and> 64 / 100 * base_price r - base_price r * pow2 (- 46) \<le> adjusted_price r
            \<and> 0 \<le> base_price r
            \<and> 0 \<le> adjusted_price r
            \<and> 0 \<le> final_price r
            \<and> (adjusted_price r \<le> 0 \<longrightarrow> base_price r = 0)
            \<and> (unrounded_final_price Binary64 (init Binary64) (adjusted_price r) sp \<le> 0
                 \<longrightarrow> base_price r = 0))
     \<and> (binary64 mc = mc \<and> base_price r = 0 \<longrightarrow> mc = 0 \<and> labor_cost r = 0)"
proof -
  obtain x where x: "calculate_price Exact (init Exact) mc hw lr u d sp = Inr x"
    and ex: "- (36 / 100) * base_price x \<le> factor_adjustment x"
      "64 / 100 * base_price x \<le> adjusted_price x"
      "0 \<le> base_price x" "0 \<le> final_price x"
      "adjusted_price x \<le> 0 \<longrightarrow> mc = 0 \<and> hw * lr = 0"
      "unrounded_final_price Exact (init Exact) (adjusted_price x) sp \<le> 0
         \<longrightarrow> mc = 0 \<and> hw * lr = 0"
    using exact_default_bounds [OF assms, of sp] by blast
  obtain r where r: "calculate_price Binary64 (init Binary64) mc hw lr u d sp = Inr r"
    using calculate_price_total by blast
  note f = calculate_price_fields [OF r]
  have fl: "base_price r = 0 \<or> (pow2 (- 1000) \<le> base_price r \<and> base_price r \<le> pow2 1000)
      \<longrightarrow> - (36 / 100) * base_price r - base_price r * pow2 (- 46) \<le> factor_adjustment r
        \<and> 64 / 100 * base_price r - base_price r * pow2 (- 46) \<le> adjusted_price r
        \<and> 0 \<le> base_price r
        \<and> 0 \<le> adjusted_price r
        \<and> 0 \<le> final_price r
        \<and> (adjusted_price r \<le> 0 \<longrightarrow> base_price r = 0)
        \<and> (unrounded_final_price Binary64 (init Binary64) (adjusted_price r) sp \<le> 0
             \<longrightarrow> base_price r = 0)"
  proof
    assume "base_price r = 0 \<or> (pow2 (- 1000) \<le> base_price r \<and> base_price r \<le> pow2 1000)"
    then have range: "base_price r = 0 \<or> pow2 (- 1000) \<le> base_price r" by blast
    from binary64_default_bounds [OF r assms range] show
      "- (36 / 100) * base_price r - base_price r * pow2 (- 46) \<le> factor_adjustment r
        \<and> 64 / 100 * base_price r - base_price r * pow2 (- 46) \<le> adjusted_price r
        \<and> 0 \<le> base_price r
        \<and> 0 \<le> adjusted_price r
        \<and> 0 \<le> final_price r
        \<and> (adjusted_price r \<le> 0 \<longrightarrow> base_price r = 0)
        \<and> (unrounded_final_price Binary64 (init Binary64) (adjusted_price r) sp \<le> 0
             \<longrightarrow> base_price r = 0)"
      by blast
  qed
  have zc: "binary64 mc = mc \<and> base_price r = 0 \<longrightarrow> mc = 0 \<and> labor_cost r = 0"
  proof
    assume a: "binary64 mc = mc \<and> base_price r = 0"
    have l: "0 \<le> binary64 (hw * lr)"
      using rnd_nonneg [of "hw * lr" Binary64] assms by simp
    have s: "binary64 (mc + binary64 (hw * lr)) = 0"
      using a f(2,3) by simp
    from binary64_sum_zero [OF s _ assms(1) l] a
    show "mc = 0 \<and> labor_cost r = 0" by (simp add: f(2))
  qed
  from x r ex fl zc show ?thesis by blast
qed

text \<open>
  The amended claim at material cost 35 with both ratings at 1, where the exact bound is
  met with equality and the program is below it by the last digit, and at zero cost, where
  the adjusted price is 0.
\<close>

theorem default_weights_bounds_witness:
  "(0::rat) \<le> 35 \<and> (0::rat) \<le> 3 \<and> (1::rat) \<le> 1 \<and> (1::rat) \<le> 10
   \<and> (\<exists>x r. calculate_price Exact (init Exact) 35 0 0 1 1 None = Inr x
        \<and> calculate_price Binary64 (init Binary64) 35 0 0 1 1 None = Inr r
        \<and> - (36 / 100) * base_price x \<le> factor_adjustment x
        \<and> 64 / 100 * base_price x \<le> adjusted_price x
        \<and> base_price r = 35 \<and> pow2 (- 1000) \<le> 35 \<and> (35::rat) \<le> pow2 1000
        \<and> - (36 / 100) * base_price r - base_price r * pow2 (- 46) \<le> factor_adjustment r
        \<and> 64 / 100 * base_price r - base_price r * pow2 (- 46) \<le> adjusted_price r
        \<and> 0 \<le> adjusted_price r \<and> 0 \<le> final_price r)
   \<and> (\<exists>x r. calculate_price Exact (init Exact) 0 3 0 1 1 None = Inr x
        \<and> calculate_price Binary64 (init Binary64) 0 3 0 1 1 None = Inr r
        \<and> adjusted_price x \<le> 0 \<and> (0::rat) = 0 \<and> (3::rat) * 0 = 0
        \<and> binary64 0 = 0 \<and> base_price r = 0 \<and> adjusted_price r \<le> 0 \<and> labor_cost r = 0)"
proof -
  have lo: "pow2 (- 1000) \<le> 35"
  proof -
    have "pow2 (- 1000) \<le> pow2 0" by (rule pow2_mono) simp
    then show ?thesis by (simp add: pow2_def)
  qed
  have hi: "(35::rat) \<le> pow2 1000"
  proof -
    have "pow2 6 \<le> pow2 1000" by (rule pow2_mono) simp
    then show ?thesis by (simp add: pow2_def)
  qed
  have A: "\<exists>x r. calculate_price Exact (init Exact) 35 0 0 1 1 None = Inr x
        \<and> calculate_price Binary64 (init Binary64) 35 0 0 1 1 None = Inr r
        \<and> - (36 / 100) * base_price x \<le> factor_adjustment x
        \<and> 64 / 100 * base_price x \<le> adjusted_price x
        \<and> base_price r = 35 \<and> pow2 (- 1000) \<le> 35 \<and> (35::rat) \<le> pow2 1000
        \<and> - (36 / 100) * base_price r - base_price r * pow2 (- 46) \<le> factor_adjustment r
        \<and> 64 / 100 * base_price r - base_price r * pow2 (- 46) \<le> adjusted_price r
        \<and> 0 \<le> adjusted_price r \<and> 0 \<le> final_price r"
  proof -
    obtain x r where x: "calculate_price Exact (init Exact) 35 0 0 1 1 None = Inr x"
      and r: "calculate_price Binary64 (init Binary64) 35 0 0 1 1 None = Inr r"
      and ex: "- (36 / 100) * base_price x \<le> factor_adjustment x"
        "64 / 100 * base_price x \<le> adjusted_price x"
      and fl: "base_price r = 0 \<or> (pow2 (- 1000) \<le> base_price r \<and> base_price r \<le> pow2 1000)
        \<longrightarrow> - (36 / 100) * base_price r - base_price r * pow2 (- 46) \<le> factor_adjustment r
          \<and> 64 / 100 * base_price r - base_price r * pow2 (- 46) \<le> adjusted_price r
          \<and> 0 \<le> base_price r
          \<and> 0 \<le> adjusted_price r
          \<and> 0 \<le> final_price r
          \<and> (adjusted_price r \<le> 0 \<longrightarrow> base_price r = 0)
          \<and> (unrounded_final_price Binary64 (init Binary64) (adjusted_price r) None \<le> 0
               \<longrightarrow> base_price r = 0)"
      using default_weights_bounds [of 35 0 0 1 1 None] by auto
    note f = calculate_price_fields [OF r]
    have bp: "base_price r = 35" unfolding f(3) f(2) by code_simp
    from fl bp lo hi have
      "- (36 / 100) * base_price r - base_price r * pow2 (- 46) \<le> factor_adjustment r"
      "64 / 100 * base_price r - base_price r * pow2 (- 46) \<le> adjusted_price r"
      "0 \<le> adjusted_price r" "0 \<le> final_price r"
      by simp_all
    with x r ex bp lo hi show ?thesis by blast
  qed
  have B: "\<exists>x r. calculate_price Exact (init Exact) 0 3 0 1 1 None = Inr x
        \<and> calculate_price Binary64 (init Binary64) 0 3 0 1 1 None = Inr r
        \<and> adjusted_price x \<le> 0 \<and> (0::rat) = 0 \<and> (3::rat) * 0 = 0
        \<and> binary64 0 = 0 \<and> base_price r = 0 \<and> adjusted_price r \<le> 0 \<and> labor_cost r = 0"
  proof -
    obtain x r where x: "calculate_price Exact (init Exact) 0 3 0 1 1 None = Inr x"
      and r: "calculate_price Binary64 (init Binary64) 0 3 0 1 1 None = Inr r"
      and zc: "binary64 0 = 0 \<and> base_price r = 0 \<longrightarrow> (0::rat) = 0 \<and> labor_cost r = 0"
      using default_weights_bounds [of 0 3 0 1 1 None] by auto
    note f = calculate_price_fields [OF x]
    note g = calculate_price_fields [OF r]
    have ax: "adjusted_price x = 0" unfolding f(7) f(6) f(5) f(4) f(3) f(2) by code_simp
    have bp: "base_price r = 0" unfolding g(3) g(2) by code_simp
    have ar: "adjusted_price r = 0" unfolding g(7) g(6) g(5) g(4) g(3) g(2) by code_simp
    from zc bp have "labor_cost r = 0" by (simp add: binary64_zero)
    with x r ax bp ar show ?thesis by (auto simp: binary64_zero)
  qed
  from A B show ?thesis by simp
qed

text \<open>
  The claim as stated fails on the program: at material cost 35, no labour and both ratings
  at 1, binary64 gives \<^verbatim>\<open>factor_adjustment = -12.600000000000001\<close>, below
  \<open>-0.36 * 35 = -12.6\<close>, and \<^verbatim>\<open>adjusted_price\<close> the double just below 22.4, below
  \<open>0.64 * 35 = 22.4\<close>.
\<close>

theorem default_bounds_fail_in_last_digit:
  "result_field base_price
       (calculate_price Binary64 (init Binary64) 35 0 0 1 1 None) = Some 35
   \<and> result_field factor_adjustment
       (calculate_price Binary64 (init Binary64) 35 0 0 1 1 None)
       = Some (- (1773292353277133 / 140737488355328))
   \<and> - (1773292353277133 / 140737488355328) < - (36 / 100) * (35 :: rat)
   \<and> result_field adjusted_price
       (calculate_price Binary64 (init Binary64) 35 0 0 1 1 None)
       = Some (3152519739159347 / 140737488355328)
   \<and> 3152519739159347 / 140737488355328 < 64 / 100 * (35 :: rat)"
proof -
  obtain r where r: "calculate_price Binary64 (init Binary64) 35 0 0 1 1 None = Inr r"
    using calculate_price_total by blast
  note f = calculate_price_fields [OF r]
  have bp: "base_price r = 35" unfolding f(3) f(2) by code_simp
  have ua: "uniqueness_adjustment r = - 7" unfolding f(4) bp by code_simp
  have da: "demand_adjustment r = - (6305039478318695 / 1125899906842624)"
    unfolding f(5) bp by code_simp
  have fa: "factor_adjustment r = - (1773292353277133 / 140737488355328)"
    unfolding f(6) ua da by code_simp
  have ap: "adjusted_price r = 3152519739159347 / 140737488355328"
    unfolding f(7) bp fa by code_simp
  have n: "- (1773292353277133 / 140737488355328) < - (36 / 100) * (35 :: rat)"
    "3152519739159347 / 140737488355328 < 64 / 100 * (35 :: rat)"
    by simp_all
  show ?thesis
    by (simp only: result_field_Inr [OF r] bp fa ap n simp_thms)
qed

section \<open>Properties of the validation functions\<close>









section \<open>Properties of the recommendation flow\<close>

lemma py_round_five: "py_round m 5 1 = 5"
  by (cases m; hypsubst; code_simp)

lemma fallback_construction:
  "PricingRecommendation m 10 2 15 5 5 0 explanation =
     Inr \<lparr>material_cost_rec = 10, hours_worked_rec = 2, labor_rate_rec = 15,
          uniqueness_rec = 5, demand_rec = 5, selling_price_rec = 0,
          explanation_rec = explanation\<rparr>"
  unfolding PricingRecommendation_def py_round_five by simp

lemma unavailable_no_recommendation:
  "\<not> is_available (ai_client h) \<Longrightarrow> fst (get_recommendations h) = None"
  by (simp add: get_recommendations_def get_pricing_recommendation_def Let_def)

text \<open>
  Claim C8, as amended. The claim says that the flow falls back to the default
  recommendation whenever the recommender produces no result. The test at line 232 of
  \<^verbatim>\<open>chat_frame.py\<close> is \<^verbatim>\<open>recommendations is None and not is_available()\<close>: when the AI
  client is not available (no API key or no client object) the flow yields the fallback
  built from \<^verbatim>\<open>material_cost=10.0, hours_worked=2.0, labor_rate=15.0, uniqueness=5.0,
  demand=5.0, selling_price=0.0\<close>, whose explanation says that these are default
  recommendations since the AI is not available, and adds a system message saying so; when
  the client is available the flow yields what \<^verbatim>\<open>get_recommendations\<close> returned, and a
  \<^verbatim>\<open>None\<close> is displayed as the message that no recommendation could be generated. The
  flow raises nothing.
\<close>

theorem fallback_only_when_client_unavailable:
  "generate_recommendations m h =
     Inr (if is_available (ai_client h) then (fst (get_recommendations h), [])
          else (Some \<lparr>material_cost_rec = 10, hours_worked_rec = 2, labor_rate_rec = 15,
                      uniqueness_rec = 5, demand_rec = 5, selling_price_rec = 0,
                      explanation_rec =
                        ''These are default recommendations since the AI is not available. ''
                        @ ''In a real scenario, these would be generated based on our conversation.''\<rparr>,
                [''Using default recommendations since the AI is not available. ''
                 @ ''Enter your OpenAI API key in the .env file to enable AI features.'']))
   \<and> display_recommendations None = Could_not_generate"
proof (cases "is_available (ai_client h)")
  case True
  then show ?thesis
    by (simp add: generate_recommendations_def display_recommendations_def)
next
  case False
  have d: "getitem DEFAULT_PRICING_PARAMETERS ''material_cost'' = Inr 10"
    "getitem DEFAULT_PRICING_PARAMETERS ''hours_worked'' = Inr 2"
    "getitem DEFAULT_PRICING_PARAMETERS ''labor_rate'' = Inr 15"
    "getitem DEFAULT_PRICING_PARAMETERS ''uniqueness'' = Inr 5"
    "getitem DEFAULT_PRICING_PARAMETERS ''demand'' = Inr 5"
    "getitem DEFAULT_PRICING_PARAMETERS ''selling_price'' = Inr 0"
    by (simp_all add: getitem_def DEFAULT_PRICING_PARAMETERS_def)
  from False unavailable_no_recommendation [OF False] show ?thesis
    by (simp add: generate_recommendations_def display_recommendations_def d and_then_def
          fallback_construction)
qed

text \<open>
  The claim as stated fails: a client that has its API key and its client object, and whose
  request fails, leaves the flow with no recommendation after one exchange: no fallback,
  and the message that none could be generated.
\<close>

theorem no_fallback_when_request_fails:
  "generate_recommendations Binary64
       \<lparr>ai_client = \<lparr>api_key = Some ''key'', client = Some failing_request\<rparr>,
        conversation_history = one_exchange\<rparr>
     = Inr (None, [])
   \<and> display_recommendations None = Could_not_generate"
  by (simp add: generate_recommendations_def get_recommendations_def
        get_pricing_recommendation_def is_available_def failing_request_def one_exchange_def
        display_recommendations_def Let_def)



end
